theory Spec2Isabelle
  imports Main
begin

section \<open>Persistence layer (models.py)\<close>

text \<open>
  The two mapped classes become records, one field per column. The column
  \<open>Activity.id\<close> is called \<open>activity_id\<close> here, because \<open>id\<close> is the identity
  function of HOL.
\<close>

record Activity =
  activity_id :: int
  name :: string
  description :: string
  schedule :: string
  max_participants :: int

record Participant =
  email :: string

text \<open>
  The database holds three tables. A table is the list of its rows, in insertion
  order. The association table \<open>activity_participants\<close> has the two columns
  \<open>(activity_id, email)\<close> and, as declared in models.py, no primary key and no
  uniqueness constraint, so the same row may occur more than once in the list.
\<close>

record store =
  activities :: "Activity list"
  participants :: "Participant list"
  activity_participants :: "(int \<times> string) list"

text \<open>\<open>Base.metadata.create_all(engine)\<close> on a fresh file: three empty tables.\<close>

definition empty_store :: store where
  "empty_store = \<lparr>activities = [], participants = [], activity_participants = []\<rparr>"

text \<open>
  \<open>db.query(Activity).filter(Activity.name == n).first()\<close> and
  \<open>db.query(Participant).filter(Participant.email == e).first()\<close>: the first
  matching row, or \<open>None\<close>.
\<close>

definition find_activity_by_name :: "store \<Rightarrow> string \<Rightarrow> Activity option" where
  "find_activity_by_name db n = List.find (\<lambda>a. name a = n) (activities db)"

definition find_participant_by_email :: "store \<Rightarrow> string \<Rightarrow> Participant option" where
  "find_participant_by_email db e = List.find (\<lambda>p. email p = e) (participants db)"

text \<open>
  The two \<open>relationship(..., secondary=activity_participants)\<close> attributes.
  \<open>activity.participants\<close> joins the association rows of the activity with the
  participants table, \<open>participant.activities\<close> joins the association rows of the
  participant with the activities table.
\<close>

definition participants_of :: "store \<Rightarrow> Activity \<Rightarrow> Participant list" where
  "participants_of db a =
     concat (map (\<lambda>(i, e). if i = activity_id a
                            then filter (\<lambda>p. email p = e) (participants db) else [])
                 (activity_participants db))"

definition activities_of :: "store \<Rightarrow> Participant \<Rightarrow> Activity list" where
  "activities_of db p =
     concat (map (\<lambda>(i, e). if e = email p
                            then filter (\<lambda>a. activity_id a = i) (activities db) else [])
                 (activity_participants db))"

text \<open>
  The id given to a new activity row by the INTEGER PRIMARY KEY column: one more
  than the largest id in the table, and 1 in an empty table.
\<close>

definition next_id :: "store \<Rightarrow> int" where
  "next_id db = fold max (map activity_id (activities db)) 0 + 1"


section \<open>API layer (app.py)\<close>

datatype HTTPException = HTTPException (status_code: int) (detail: string)

record response =
  message :: string

subsection \<open>Seed data\<close>

text \<open>
  The dictionary \<open>sample_activities\<close>, as the list of its items in insertion
  order: name, description, schedule, max_participants, participants.
\<close>

definition sample_activities :: "(string \<times> string \<times> string \<times> int \<times> string list) list" where
  "sample_activities =
    [(''Chess Club'',
      ''Learn strategies and compete in chess tournaments'',
      ''Fridays, 3:30 PM - 5:00 PM'',
      12,
      [''michael@mergington.edu'', ''daniel@mergington.edu'']),
     (''Programming Class'',
      ''Learn programming fundamentals and build software projects'',
      ''Tuesdays and Thursdays, 3:30 PM - 4:30 PM'',
      20,
      [''emma@mergington.edu'', ''sophia@mergington.edu'']),
     (''Gym Class'',
      ''Physical education and sports activities'',
      ''Mondays, Wednesdays, Fridays, 2:00 PM - 3:00 PM'',
      30,
      [''john@mergington.edu'', ''olivia@mergington.edu''])]"

text \<open>
  One round of the inner loop of \<open>init_sample_data\<close>. The session does not
  autoflush, so the query for the participant reads the committed database
  \<open>db\<close>, while the new rows are collected in the session \<open>sess\<close>.
\<close>

definition link_participant :: "store \<Rightarrow> Activity \<Rightarrow> store \<Rightarrow> string \<Rightarrow> store" where
  "link_participant db activity sess e =
     (case find_participant_by_email db e of
        None \<Rightarrow>
          sess\<lparr>participants := participants sess @ [\<lparr>email = e\<rparr>],
               activity_participants :=
                 activity_participants sess @ [(activity_id activity, e)]\<rparr>
      | Some participant \<Rightarrow>
          sess\<lparr>activity_participants :=
                 activity_participants sess @ [(activity_id activity, email participant)]\<rparr>)"

text \<open>One round of the outer loop: the activity row, then its participants.\<close>

definition add_sample_activity ::
  "store \<Rightarrow> store \<Rightarrow> string \<times> string \<times> string \<times> int \<times> string list \<Rightarrow> store" where
  "add_sample_activity db sess item =
     (case item of (n, d, s, m, ps) \<Rightarrow>
        let activity = \<lparr>activity_id = next_id sess, name = n, description = d,
                        schedule = s, max_participants = m\<rparr>;
            sess1 = sess\<lparr>activities := activities sess @ [activity]\<rparr>
        in foldl (link_participant db activity) sess1 ps)"

text \<open>
  \<open>init_sample_data\<close>: nothing happens when the activities table has a row;
  otherwise the loops run and the session is committed.
\<close>

definition init_sample_data :: "store \<Rightarrow> store" where
  "init_sample_data db =
     (if activities db \<noteq> [] then db
      else foldl (add_sample_activity db) db sample_activities)"

subsection \<open>GET /activities\<close>

text \<open>The value stored under each activity name.\<close>

record details =
  d_description :: string
  d_schedule :: string
  d_max_participants :: int
  d_participants :: "string list"

definition details_of :: "store \<Rightarrow> Activity \<Rightarrow> details" where
  "details_of db activity =
     \<lparr>d_description = description activity,
      d_schedule = schedule activity,
      d_max_participants = max_participants activity,
      d_participants = map email (participants_of db activity)\<rparr>"

text \<open>
  The loop assigns \<open>activities_dict[activity.name]\<close> for each row in turn; a later
  row with the same name would overwrite an earlier one.
\<close>

definition get_activities :: "store \<Rightarrow> (string \<rightharpoonup> details)" where
  "get_activities db =
     foldl (\<lambda>activities_dict activity.
              activities_dict(name activity \<mapsto> details_of db activity))
           Map.empty (activities db)"

subsection \<open>POST /activities/{activity_name}/signup\<close>

text \<open>
  A handler returns its outcome together with the database as the request leaves
  it: an \<open>HTTPException\<close> is raised before anything is written and before the
  commit, the success path commits the rows it has added. Mapped objects are
  always truthy, so \<open>not activity\<close> and \<open>participant and ...\<close> test for \<open>None\<close>.
\<close>

definition signup_for_activity ::
  "store \<Rightarrow> string \<Rightarrow> string \<Rightarrow> (HTTPException + response) \<times> store" where
  "signup_for_activity db activity_name e =
     (case find_activity_by_name db activity_name of
        None \<Rightarrow> (Inl (HTTPException 404 ''Activity not found''), db)
      | Some activity \<Rightarrow>
          (case find_participant_by_email db e of
             Some participant \<Rightarrow>
               if activity \<in> set (activities_of db participant)
               then (Inl (HTTPException 400 ''Student is already signed up''), db)
               else (Inr \<lparr>message = ''Signed up '' @ e @ '' for '' @ activity_name\<rparr>,
                     db\<lparr>activity_participants :=
                          activity_participants db
                            @ [(activity_id activity, email participant)]\<rparr>)
           | None \<Rightarrow>
               (Inr \<lparr>message = ''Signed up '' @ e @ '' for '' @ activity_name\<rparr>,
                db\<lparr>participants := participants db @ [\<lparr>email = e\<rparr>],
                   activity_participants :=
                     activity_participants db @ [(activity_id activity, e)]\<rparr>)))"

subsection \<open>DELETE /activities/{activity_name}/unregister\<close>

text \<open>
  \<open>activity.participants.remove(participant)\<close> takes the first occurrence out of
  the collection, as \<open>list.remove\<close> does. In a table where no row occurs twice,
  which is how the handlers keep it, this deletes the one row
  \<open>(activity_id, email)\<close>.
\<close>

definition unregister_from_activity ::
  "store \<Rightarrow> string \<Rightarrow> string \<Rightarrow> (HTTPException + response) \<times> store" where
  "unregister_from_activity db activity_name e =
     (case find_activity_by_name db activity_name of
        None \<Rightarrow> (Inl (HTTPException 404 ''Activity not found''), db)
      | Some activity \<Rightarrow>
          (case find_participant_by_email db e of
             None \<Rightarrow>
               (Inl (HTTPException 400 ''Student is not signed up for this activity''), db)
           | Some participant \<Rightarrow>
               if activity \<notin> set (activities_of db participant)
               then (Inl (HTTPException 400
                            ''Student is not signed up for this activity''), db)
               else (Inr \<lparr>message = ''Unregistered '' @ e @ '' from '' @ activity_name\<rparr>,
                     db\<lparr>activity_participants :=
                          remove1 (activity_id activity, email participant)
                                  (activity_participants db)\<rparr>)))"

subsection \<open>Sequences of requests\<close>

datatype request = Signup string string | Unregister string string

fun handle :: "store \<Rightarrow> request \<Rightarrow> (HTTPException + response) \<times> store" where
  "handle db (Signup activity_name e) = signup_for_activity db activity_name e"
| "handle db (Unregister activity_name e) = unregister_from_activity db activity_name e"

text \<open>The database after a sequence of requests, served one after the other.\<close>

definition run :: "store \<Rightarrow> request list \<Rightarrow> store" where
  "run db rs = foldl (\<lambda>s r. snd (handle s r)) db rs"

text \<open>The database the server starts with: the seed data in a fresh file.\<close>

definition seeded :: store where
  "seeded = init_sample_data empty_store"


text \<open>
  A database in which an activity of capacity 1 already has two participants.
\<close>

definition full_store :: store where
  "full_store =
     \<lparr>activities =
        [\<lparr>activity_id = 1, name = ''Chess Club'', description = ''Chess'',
          schedule = ''Fridays'', max_participants = 1\<rparr>],
      participants = [\<lparr>email = ''a@x''\<rparr>, \<lparr>email = ''b@x''\<rparr>],
      activity_participants = [(1, ''a@x''), (1, ''b@x'')]\<rparr>"


text \<open>
  The part of the data model that the handlers rely on and keep: no association
  row occurs twice, and every association row names an existing participant.
\<close>

definition consistent :: "store \<Rightarrow> bool" where
  "consistent db \<longleftrightarrow>
     distinct (activity_participants db)
     \<and> (\<forall>(i, e) \<in> set (activity_participants db). \<lparr>email = e\<rparr> \<in> set (participants db))"


section \<open>Basic facts about the queries and the handlers\<close>

lemma find_SomeD: "List.find P xs = Some x \<Longrightarrow> x \<in> set xs \<and> P x"
  by (induction xs) (auto split: if_splits)

lemma find_append_case:
  "List.find P (xs @ ys) = (case List.find P xs of None \<Rightarrow> List.find P ys | Some x \<Rightarrow> Some x)"
  by (induction xs) auto

lemma participant_surj: "\<lparr>email = email p\<rparr> = (p :: Participant)"
  by (cases p) simp

lemma find_participant_Some:
  "find_participant_by_email db E = Some p \<Longrightarrow> p = \<lparr>email = E\<rparr> \<and> \<lparr>email = E\<rparr> \<in> set (participants db)"
  unfolding find_participant_by_email_def by (auto dest!: find_SomeD simp: participant_surj)

lemma find_participant_None:
  "find_participant_by_email db E = None \<longleftrightarrow> \<lparr>email = E\<rparr> \<notin> set (participants db)"
  unfolding find_participant_by_email_def by (auto simp: find_None_iff participant_surj)

lemma find_participant_present:
  "\<lparr>email = E\<rparr> \<in> set (participants db) \<Longrightarrow> find_participant_by_email db E = Some \<lparr>email = E\<rparr>"
  using find_participant_None [of db E] find_participant_Some [of db E]
  by (cases "find_participant_by_email db E") auto

lemma find_activity_Some:
  "find_activity_by_name db A = Some a \<Longrightarrow> a \<in> set (activities db) \<and> name a = A"
  unfolding find_activity_by_name_def by (auto dest: find_SomeD)

lemma set_activities_of:
  "set (activities_of db p) =
     {a \<in> set (activities db). (activity_id a, email p) \<in> set (activity_participants db)}"
  unfolding activities_of_def by (auto split: if_splits)

lemma set_participants_of:
  "set (participants_of db a) =
     {p \<in> set (participants db). (activity_id a, email p) \<in> set (activity_participants db)}"
  unfolding participants_of_def by (auto split: if_splits)

lemma signup_not_found:
  "find_activity_by_name db A = None \<Longrightarrow>
   signup_for_activity db A E = (Inl (HTTPException 404 ''Activity not found''), db)"
  by (simp add: signup_for_activity_def)

lemma signup_already:
  assumes "find_activity_by_name db A = Some a"
    and "\<lparr>email = E\<rparr> \<in> set (participants db)"
    and "(activity_id a, E) \<in> set (activity_participants db)"
  shows "signup_for_activity db A E =
           (Inl (HTTPException 400 ''Student is already signed up''), db)"
  using assms find_activity_Some [OF assms(1)]
  by (simp add: signup_for_activity_def find_participant_present set_activities_of)

lemma signup_ok:
  assumes "find_activity_by_name db A = Some a"
    and "\<lparr>email = E\<rparr> \<notin> set (participants db)
         \<or> (activity_id a, E) \<notin> set (activity_participants db)"
  shows "signup_for_activity db A E =
           (Inr \<lparr>message = ''Signed up '' @ E @ '' for '' @ A\<rparr>,
            db\<lparr>participants :=
                 (if \<lparr>email = E\<rparr> \<in> set (participants db) then participants db
                  else participants db @ [\<lparr>email = E\<rparr>]),
               activity_participants :=
                 activity_participants db @ [(activity_id a, E)]\<rparr>)"
proof (cases "\<lparr>email = E\<rparr> \<in> set (participants db)")
  case True
  with assms show ?thesis
    by (simp add: signup_for_activity_def find_participant_present set_activities_of)
next
  case False
  then have "find_participant_by_email db E = None"
    by (simp add: find_participant_None)
  with assms False show ?thesis
    by (simp add: signup_for_activity_def)
qed

lemma unregister_not_found:
  "find_activity_by_name db A = None \<Longrightarrow>
   unregister_from_activity db A E = (Inl (HTTPException 404 ''Activity not found''), db)"
  by (simp add: unregister_from_activity_def)

lemma unregister_not_signed_up:
  assumes "find_activity_by_name db A = Some a"
    and "\<lparr>email = E\<rparr> \<notin> set (participants db)
         \<or> (activity_id a, E) \<notin> set (activity_participants db)"
  shows "unregister_from_activity db A E =
           (Inl (HTTPException 400 ''Student is not signed up for this activity''), db)"
proof (cases "\<lparr>email = E\<rparr> \<in> set (participants db)")
  case True
  with assms show ?thesis
    by (simp add: unregister_from_activity_def find_participant_present set_activities_of)
next
  case False
  then have "find_participant_by_email db E = None"
    by (simp add: find_participant_None)
  with assms show ?thesis
    by (simp add: unregister_from_activity_def)
qed

lemma unregister_ok:
  assumes "find_activity_by_name db A = Some a"
    and "\<lparr>email = E\<rparr> \<in> set (participants db)"
    and "(activity_id a, E) \<in> set (activity_participants db)"
  shows "unregister_from_activity db A E =
           (Inr \<lparr>message = ''Unregistered '' @ E @ '' from '' @ A\<rparr>,
            db\<lparr>activity_participants :=
                 remove1 (activity_id a, E) (activity_participants db)\<rparr>)"
  using assms find_activity_Some [OF assms(1)]
  by (simp add: unregister_from_activity_def find_participant_present set_activities_of)

lemma foldl_dict:
  "foldl (\<lambda>d a. d(name a \<mapsto> f a)) d0 xs n =
     (case List.find (\<lambda>a. name a = n) (rev xs) of None \<Rightarrow> d0 n | Some a \<Rightarrow> Some (f a))"
  by (induction xs rule: rev_induct) auto

lemma find_rev_unique:
  "distinct (map name xs) \<Longrightarrow>
   List.find (\<lambda>a. name a = n) (rev xs) = List.find (\<lambda>a. name a = n) xs"
proof (induction xs)
  case Nil
  show ?case by simp
next
  case (Cons x xs)
  show ?case
  proof (cases "name x = n")
    case True
    with Cons.prems have "List.find (\<lambda>a. name a = n) (rev xs) = None"
      by (auto simp: find_None_iff image_iff)
    with True show ?thesis by (simp add: find_append_case)
  next
    case False
    with Cons show ?thesis
      by (simp add: find_append_case split: option.splits)
  qed
qed

lemma get_activities_find:
  "distinct (map name (activities db)) \<Longrightarrow>
   get_activities db n = map_option (details_of db) (find_activity_by_name db n)"
  unfolding get_activities_def find_activity_by_name_def
  by (simp add: foldl_dict find_rev_unique split: option.splits)

lemma seeded_eq:
  "seeded =
     \<lparr>activities =
        [\<lparr>activity_id = 1, name = ''Chess Club'',
          description = ''Learn strategies and compete in chess tournaments'',
          schedule = ''Fridays, 3:30 PM - 5:00 PM'', max_participants = 12\<rparr>,
         \<lparr>activity_id = 2, name = ''Programming Class'',
          description = ''Learn programming fundamentals and build software projects'',
          schedule = ''Tuesdays and Thursdays, 3:30 PM - 4:30 PM'', max_participants = 20\<rparr>,
         \<lparr>activity_id = 3, name = ''Gym Class'',
          description = ''Physical education and sports activities'',
          schedule = ''Mondays, Wednesdays, Fridays, 2:00 PM - 3:00 PM'',
          max_participants = 30\<rparr>],
      participants =
        [\<lparr>email = ''michael@mergington.edu''\<rparr>, \<lparr>email = ''daniel@mergington.edu''\<rparr>,
         \<lparr>email = ''emma@mergington.edu''\<rparr>, \<lparr>email = ''sophia@mergington.edu''\<rparr>,
         \<lparr>email = ''john@mergington.edu''\<rparr>, \<lparr>email = ''olivia@mergington.edu''\<rparr>],
      activity_participants =
        [(1, ''michael@mergington.edu''), (1, ''daniel@mergington.edu''),
         (2, ''emma@mergington.edu''), (2, ''sophia@mergington.edu''),
         (3, ''john@mergington.edu''), (3, ''olivia@mergington.edu'')]\<rparr>"
  by (simp add: seeded_def init_sample_data_def empty_store_def sample_activities_def
        add_sample_activity_def link_participant_def find_participant_by_email_def next_id_def)

lemma seeded_chess:
  "find_activity_by_name seeded ''Chess Club'' =
     Some \<lparr>activity_id = 1, name = ''Chess Club'',
           description = ''Learn strategies and compete in chess tournaments'',
           schedule = ''Fridays, 3:30 PM - 5:00 PM'', max_participants = 12\<rparr>"
  by (simp add: seeded_eq find_activity_by_name_def)

lemma find_activity_cong:
  "activities db' = activities db \<Longrightarrow> find_activity_by_name db' A = find_activity_by_name db A"
  by (simp add: find_activity_by_name_def)

lemma concat_map_remove1:
  "f x = [] \<Longrightarrow> concat (map f (remove1 x xs)) = concat (map f xs)"
  by (induction xs) auto

lemma count_list_remove1_other:
  "x \<noteq> y \<Longrightarrow> count_list (remove1 y xs) x = count_list xs x"
  by (induction xs) auto

lemma participants_of_snoc:
  "participants_of (db\<lparr>activity_participants := activity_participants db @ [(i, e)]\<rparr>) b =
     participants_of db b
       @ (if i = activity_id b then filter (\<lambda>p. email p = e) (participants db) else [])"
  by (simp add: participants_of_def cong: if_cong)

lemma participants_of_remove1:
  "i \<noteq> activity_id b \<Longrightarrow>
   participants_of (db\<lparr>activity_participants := remove1 (i, e) (activity_participants db)\<rparr>) b =
     participants_of db b"
  by (simp add: participants_of_def concat_map_remove1 cong: if_cong)

lemma participants_of_new_participant:
  assumes "\<forall>(i, e) \<in> set (activity_participants db). i = activity_id b \<longrightarrow> e \<noteq> E"
  shows "participants_of (db\<lparr>participants := participants db @ [\<lparr>email = E\<rparr>]\<rparr>) b =
           participants_of db b"
  unfolding participants_of_def
proof (rule arg_cong [where f = concat], rule map_cong)
  show "activity_participants (db\<lparr>participants := participants db @ [\<lparr>email = E\<rparr>]\<rparr>)
          = activity_participants db"
    by simp
next
  fix x
  assume "x \<in> set (activity_participants db)"
  with assms show
    "(case x of (i, e) \<Rightarrow>
        if i = activity_id b
        then filter (\<lambda>p. email p = e)
               (participants (db\<lparr>participants := participants db @ [\<lparr>email = E\<rparr>]\<rparr>))
        else [])
     = (case x of (i, e) \<Rightarrow>
        if i = activity_id b then filter (\<lambda>p. email p = e) (participants db) else [])"
    by (cases x) auto
qed

lemma activities_of_snoc:
  "activities_of (db\<lparr>activity_participants := activity_participants db @ [(i, e)]\<rparr>) p =
     activities_of db p
       @ (if e = email p then filter (\<lambda>a. activity_id a = i) (activities db) else [])"
  by (simp add: activities_of_def cong: if_cong)

lemma activities_of_remove1:
  "e \<noteq> email p \<Longrightarrow>
   activities_of (db\<lparr>activity_participants := remove1 (i, e) (activity_participants db)\<rparr>) p =
     activities_of db p"
  by (simp add: activities_of_def concat_map_remove1 cong: if_cong)

lemma activities_of_participants_upd:
  "activities_of (db\<lparr>participants := ps\<rparr>) p = activities_of db p"
  by (simp add: activities_of_def cong: if_cong)

section \<open>The claims\<close>

subsection \<open>C1: a first signup succeeds\<close>

text \<open>
  Claim C1. Whenever an activity named \<open>A\<close> exists and the association table has
  no row for \<open>(A, E)\<close>, the signup request succeeds with the message
  "Signed up E for A": the participant row for \<open>E\<close> is created if it was absent,
  the row \<open>(A, E)\<close> is added to the association table, and a following
  GET /activities lists \<open>E\<close> among the participants of \<open>A\<close>. Activity names are
  unique in the table, as the column is declared.
\<close>

theorem signup_creates_association:
  assumes "distinct (map name (activities db))"
    and "find_activity_by_name db A = Some a"
    and "(activity_id a, E) \<notin> set (activity_participants db)"
  shows "\<exists>db'. signup_for_activity db A E =
                 (Inr \<lparr>message = ''Signed up '' @ E @ '' for '' @ A\<rparr>, db')
             \<and> participants db' =
                 (if \<lparr>email = E\<rparr> \<in> set (participants db) then participants db
                  else participants db @ [\<lparr>email = E\<rparr>])
             \<and> \<lparr>email = E\<rparr> \<in> set (participants db')
             \<and> activity_participants db' = activity_participants db @ [(activity_id a, E)]
             \<and> activities db' = activities db
             \<and> (\<exists>d. get_activities db' A = Some d \<and> E \<in> set (d_participants d))"
proof -
  define db' where
    "db' = db\<lparr>participants :=
                 (if \<lparr>email = E\<rparr> \<in> set (participants db) then participants db
                  else participants db @ [\<lparr>email = E\<rparr>]),
               activity_participants := activity_participants db @ [(activity_id a, E)]\<rparr>"
  have run: "signup_for_activity db A E =
               (Inr \<lparr>message = ''Signed up '' @ E @ '' for '' @ A\<rparr>, db')"
    unfolding db'_def using assms(2,3) by (intro signup_ok) simp_all
  have acts: "activities db' = activities db"
    by (simp add: db'_def)
  have parts_eq: "participants db' =
                    (if \<lparr>email = E\<rparr> \<in> set (participants db) then participants db
                     else participants db @ [\<lparr>email = E\<rparr>])"
    by (simp add: db'_def)
  have parts: "\<lparr>email = E\<rparr> \<in> set (participants db')"
    by (simp add: db'_def)
  have assoc: "activity_participants db' = activity_participants db @ [(activity_id a, E)]"
    by (simp add: db'_def)
  have "find_activity_by_name db' A = Some a"
    using assms(2) find_activity_cong [OF acts] by simp
  moreover have "distinct (map name (activities db'))"
    using assms(1) acts by simp
  ultimately have get: "get_activities db' A = Some (details_of db' a)"
    by (simp add: get_activities_find)
  have "\<lparr>email = E\<rparr> \<in> set (participants_of db' a)"
    using parts assoc by (simp add: set_participants_of)
  then have "E \<in> set (d_participants (details_of db' a))"
    by (force simp: details_of_def)
  with run acts parts parts_eq assoc get show ?thesis
    by blast
qed

theorem signup_creates_association_witness:
  "distinct (map name (activities seeded))
   \<and> find_activity_by_name seeded ''Chess Club'' =
        Some \<lparr>activity_id = 1, name = ''Chess Club'',
              description = ''Learn strategies and compete in chess tournaments'',
              schedule = ''Fridays, 3:30 PM - 5:00 PM'', max_participants = 12\<rparr>
   \<and> (1, ''new@mergington.edu'') \<notin> set (activity_participants seeded)
   \<and> fst (signup_for_activity seeded ''Chess Club'' ''new@mergington.edu'') =
        Inr \<lparr>message = ''Signed up new@mergington.edu for Chess Club''\<rparr>
   \<and> (\<exists>d. get_activities (snd (signup_for_activity seeded ''Chess Club'' ''new@mergington.edu''))
              ''Chess Club'' = Some d
          \<and> ''new@mergington.edu'' \<in> set (d_participants d))"
proof -
  let ?a = "\<lparr>activity_id = 1, name = ''Chess Club'',
              description = ''Learn strategies and compete in chess tournaments'',
              schedule = ''Fridays, 3:30 PM - 5:00 PM'', max_participants = 12\<rparr>"
  have h1: "distinct (map name (activities seeded))"
    by (simp add: seeded_eq)
  have h2: "find_activity_by_name seeded ''Chess Club'' = Some ?a"
    by (simp add: seeded_eq find_activity_by_name_def)
  have h3: "(activity_id ?a, ''new@mergington.edu'') \<notin> set (activity_participants seeded)"
    by (simp add: seeded_eq)
  from signup_creates_association [OF h1 h2 h3] h1 h2 h3 show ?thesis
    by auto
qed

subsection \<open>C2: a repeated signup is rejected\<close>

text \<open>
  Claim C2. When the participant \<open>E\<close> exists and is already associated to the
  activity \<open>A\<close>, the signup request fails with status 400 and the detail
  "Student is already signed up". In particular, starting from a database where
  \<open>E\<close> is not associated to \<open>A\<close>, the first of two signups for \<open>(A, E)\<close> succeeds and
  the second fails with that condition.
\<close>

theorem signup_twice_rejected:
  assumes "find_activity_by_name db A = Some a"
  shows "(\<lparr>email = E\<rparr> \<in> set (participants db)
            \<and> (activity_id a, E) \<in> set (activity_participants db)
          \<longrightarrow> signup_for_activity db A E =
                (Inl (HTTPException 400 ''Student is already signed up''), db))
       \<and> ((activity_id a, E) \<notin> set (activity_participants db)
          \<longrightarrow> (\<exists>m db'. signup_for_activity db A E = (Inr m, db')
                  \<and> signup_for_activity db' A E =
                      (Inl (HTTPException 400 ''Student is already signed up''), db')))"
proof (intro conjI impI)
  assume "\<lparr>email = E\<rparr> \<in> set (participants db)
            \<and> (activity_id a, E) \<in> set (activity_participants db)"
  with assms show "signup_for_activity db A E =
                     (Inl (HTTPException 400 ''Student is already signed up''), db)"
    by (simp add: signup_already)
next
  assume fresh: "(activity_id a, E) \<notin> set (activity_participants db)"
  define db' where
    "db' = db\<lparr>participants :=
                 (if \<lparr>email = E\<rparr> \<in> set (participants db) then participants db
                  else participants db @ [\<lparr>email = E\<rparr>]),
               activity_participants := activity_participants db @ [(activity_id a, E)]\<rparr>"
  have first: "signup_for_activity db A E =
                 (Inr \<lparr>message = ''Signed up '' @ E @ '' for '' @ A\<rparr>, db')"
    unfolding db'_def using assms fresh by (intro signup_ok) simp_all
  have "activities db' = activities db"
    by (simp add: db'_def)
  then have found: "find_activity_by_name db' A = Some a"
    using assms find_activity_cong [of db' db A] by simp
  have "\<lparr>email = E\<rparr> \<in> set (participants db')"
    and "(activity_id a, E) \<in> set (activity_participants db')"
    by (simp_all add: db'_def)
  with found have "signup_for_activity db' A E =
                     (Inl (HTTPException 400 ''Student is already signed up''), db')"
    by (rule signup_already)
  with first show "\<exists>m db'. signup_for_activity db A E = (Inr m, db')
                     \<and> signup_for_activity db' A E =
                         (Inl (HTTPException 400 ''Student is already signed up''), db')"
    by blast
qed

theorem signup_twice_rejected_witness:
  "signup_for_activity seeded ''Chess Club'' ''michael@mergington.edu'' =
     (Inl (HTTPException 400 ''Student is already signed up''), seeded)
   \<and> (\<exists>m db'. signup_for_activity seeded ''Chess Club'' ''new@mergington.edu'' = (Inr m, db')
          \<and> signup_for_activity db' ''Chess Club'' ''new@mergington.edu'' =
               (Inl (HTTPException 400 ''Student is already signed up''), db'))"
proof -
  have old: "\<lparr>email = ''michael@mergington.edu''\<rparr> \<in> set (participants seeded)
             \<and> (1, ''michael@mergington.edu'') \<in> set (activity_participants seeded)"
    by (simp add: seeded_eq)
  have new: "(1, ''new@mergington.edu'') \<notin> set (activity_participants seeded)"
    by (simp add: seeded_eq)
  from signup_twice_rejected [OF seeded_chess, of "''michael@mergington.edu''"] old
  have "signup_for_activity seeded ''Chess Club'' ''michael@mergington.edu'' =
          (Inl (HTTPException 400 ''Student is already signed up''), seeded)"
    by simp
  moreover from signup_twice_rejected [OF seeded_chess, of "''new@mergington.edu''"] new
  have "\<exists>m db'. signup_for_activity seeded ''Chess Club'' ''new@mergington.edu'' = (Inr m, db')
          \<and> signup_for_activity db' ''Chess Club'' ''new@mergington.edu'' =
               (Inl (HTTPException 400 ''Student is already signed up''), db')"
    by simp
  ultimately show ?thesis by blast
qed

subsection \<open>C3: an unknown activity is not found\<close>

text \<open>
  Claim C3. When no activity has the name \<open>N\<close>, the signup request and the
  unregister request for \<open>N\<close> both fail with status 404, for every email and
  whatever the participants and association tables hold.
\<close>

theorem unknown_activity_not_found:
  assumes "\<forall>a \<in> set (activities db). name a \<noteq> N"
  shows "signup_for_activity db N E =
           (Inl (HTTPException 404 ''Activity not found''), db)
       \<and> unregister_from_activity db N E =
           (Inl (HTTPException 404 ''Activity not found''), db)"
proof -
  from assms have "find_activity_by_name db N = None"
    by (auto simp: find_activity_by_name_def find_None_iff)
  then show ?thesis
    by (simp add: signup_not_found unregister_not_found)
qed

theorem unknown_activity_not_found_witness:
  "signup_for_activity seeded ''Debate Team'' ''michael@mergington.edu'' =
       (Inl (HTTPException 404 ''Activity not found''), seeded)
   \<and> unregister_from_activity seeded ''Debate Team'' ''michael@mergington.edu'' =
       (Inl (HTTPException 404 ''Activity not found''), seeded)"
proof -
  have h: "\<forall>a \<in> set (activities seeded). name a \<noteq> ''Debate Team''"
    by (simp add: seeded_eq)
  from unknown_activity_not_found [OF h, of "''michael@mergington.edu''"] show ?thesis
    by blast
qed

subsection \<open>C4: unregistering someone who is not signed up\<close>

text \<open>
  Claim C4. When the activity \<open>A\<close> exists, the unregister request fails with
  status 400 and the detail "Student is not signed up for this activity" if and
  only if the participant \<open>E\<close> is absent or there is no association row for
  \<open>(A, E)\<close>. In particular, when the association table holds no row twice, an
  unregister repeated right after a successful one fails with that condition.
\<close>

theorem unregister_not_signed_up_iff:
  assumes "find_activity_by_name db A = Some a"
  shows "(fst (unregister_from_activity db A E) =
            Inl (HTTPException 400 ''Student is not signed up for this activity'')
          \<longleftrightarrow> \<lparr>email = E\<rparr> \<notin> set (participants db)
               \<or> (activity_id a, E) \<notin> set (activity_participants db))
       \<and> (distinct (activity_participants db)
          \<longrightarrow> (\<forall>m db'. unregister_from_activity db A E = (Inr m, db')
                \<longrightarrow> unregister_from_activity db' A E =
                      (Inl (HTTPException 400
                              ''Student is not signed up for this activity''), db')))"
proof (intro conjI impI allI iffI)
  assume "\<lparr>email = E\<rparr> \<notin> set (participants db)
            \<or> (activity_id a, E) \<notin> set (activity_participants db)"
  with assms show "fst (unregister_from_activity db A E) =
                     Inl (HTTPException 400 ''Student is not signed up for this activity'')"
    by (simp add: unregister_not_signed_up)
next
  assume failed: "fst (unregister_from_activity db A E) =
                    Inl (HTTPException 400 ''Student is not signed up for this activity'')"
  show "\<lparr>email = E\<rparr> \<notin> set (participants db)
          \<or> (activity_id a, E) \<notin> set (activity_participants db)"
  proof (rule ccontr)
    assume "\<not> (\<lparr>email = E\<rparr> \<notin> set (participants db)
                 \<or> (activity_id a, E) \<notin> set (activity_participants db))"
    then have "\<lparr>email = E\<rparr> \<in> set (participants db)"
      and "(activity_id a, E) \<in> set (activity_participants db)"
      by simp_all
    with assms have "fst (unregister_from_activity db A E) =
                       Inr \<lparr>message = ''Unregistered '' @ E @ '' from '' @ A\<rparr>"
      by (simp add: unregister_ok)
    with failed show False by simp
  qed
next
  fix m db'
  assume dist: "distinct (activity_participants db)"
    and succ: "unregister_from_activity db A E = (Inr m, db')"
  have present: "\<lparr>email = E\<rparr> \<in> set (participants db)
                   \<and> (activity_id a, E) \<in> set (activity_participants db)"
  proof (rule ccontr)
    assume "\<not> (\<lparr>email = E\<rparr> \<in> set (participants db)
                 \<and> (activity_id a, E) \<in> set (activity_participants db))"
    then have "\<lparr>email = E\<rparr> \<notin> set (participants db)
                 \<or> (activity_id a, E) \<notin> set (activity_participants db)"
      by simp
    with assms succ show False
      by (simp add: unregister_not_signed_up)
  qed
  with assms succ have db': "db' = db\<lparr>activity_participants :=
                                         remove1 (activity_id a, E) (activity_participants db)\<rparr>"
    by (simp add: unregister_ok)
  then have "activities db' = activities db"
    by simp
  then have found: "find_activity_by_name db' A = Some a"
    using assms find_activity_cong [of db' db A] by simp
  from dist db' have "(activity_id a, E) \<notin> set (activity_participants db')"
    by simp
  with found show "unregister_from_activity db' A E =
                     (Inl (HTTPException 400
                             ''Student is not signed up for this activity''), db')"
    by (simp add: unregister_not_signed_up)
qed

theorem unregister_not_signed_up_iff_witness:
  "fst (unregister_from_activity seeded ''Chess Club'' ''emma@mergington.edu'') =
     Inl (HTTPException 400 ''Student is not signed up for this activity'')
   \<and> fst (unregister_from_activity seeded ''Chess Club'' ''michael@mergington.edu'') \<noteq>
     Inl (HTTPException 400 ''Student is not signed up for this activity'')
   \<and> unregister_from_activity
       (snd (unregister_from_activity seeded ''Chess Club'' ''michael@mergington.edu''))
       ''Chess Club'' ''michael@mergington.edu'' =
       (Inl (HTTPException 400 ''Student is not signed up for this activity''),
        snd (unregister_from_activity seeded ''Chess Club'' ''michael@mergington.edu''))"
proof -
  have emma: "(1, ''emma@mergington.edu'') \<notin> set (activity_participants seeded)"
    by (simp add: seeded_eq)
  have michael: "\<lparr>email = ''michael@mergington.edu''\<rparr> \<in> set (participants seeded)
                 \<and> (1, ''michael@mergington.edu'') \<in> set (activity_participants seeded)"
    by (simp add: seeded_eq)
  have dist: "distinct (activity_participants seeded)"
    by (simp add: seeded_eq)
  obtain m db' where
    ok: "unregister_from_activity seeded ''Chess Club'' ''michael@mergington.edu'' = (Inr m, db')"
    using unregister_ok [OF seeded_chess, of "''michael@mergington.edu''"] michael by simp
  from unregister_not_signed_up_iff [OF seeded_chess, of "''emma@mergington.edu''"] emma
  have "fst (unregister_from_activity seeded ''Chess Club'' ''emma@mergington.edu'') =
          Inl (HTTPException 400 ''Student is not signed up for this activity'')"
    by simp
  moreover
  from unregister_not_signed_up_iff [OF seeded_chess, of "''michael@mergington.edu''"] michael
  have "fst (unregister_from_activity seeded ''Chess Club'' ''michael@mergington.edu'') \<noteq>
          Inl (HTTPException 400 ''Student is not signed up for this activity'')"
    by simp
  moreover
  from unregister_not_signed_up_iff [OF seeded_chess, of "''michael@mergington.edu''"] dist ok
  have "unregister_from_activity db' ''Chess Club'' ''michael@mergington.edu'' =
          (Inl (HTTPException 400 ''Student is not signed up for this activity''), db')"
    by blast
  ultimately show ?thesis using ok by simp
qed

subsection \<open>C5: unregister removes the association and nothing else\<close>

text \<open>
  Claim C5. When the activity \<open>A\<close> exists and the participant \<open>E\<close> is associated
  to it, the unregister request succeeds and removes the association row only:
  afterwards \<open>E\<close> is no longer in the participant list that GET /activities shows
  for \<open>A\<close>, while the participant row for \<open>E\<close> and the activity row for \<open>A\<close> are
  still there. Activity names and association rows are unique, as in the data
  model.
\<close>

theorem unregister_removes_only_association:
  assumes "distinct (map name (activities db))"
    and "distinct (activity_participants db)"
    and "find_activity_by_name db A = Some a"
    and "\<lparr>email = E\<rparr> \<in> set (participants db)"
    and "(activity_id a, E) \<in> set (activity_participants db)"
  shows "\<exists>db'. unregister_from_activity db A E =
                 (Inr \<lparr>message = ''Unregistered '' @ E @ '' from '' @ A\<rparr>, db')
             \<and> activity_participants db' =
                 remove1 (activity_id a, E) (activity_participants db)
             \<and> (activity_id a, E) \<notin> set (activity_participants db')
             \<and> (\<exists>d. get_activities db' A = Some d \<and> E \<notin> set (d_participants d))
             \<and> participants db' = participants db
             \<and> activities db' = activities db
             \<and> \<lparr>email = E\<rparr> \<in> set (participants db')
             \<and> find_activity_by_name db' A = Some a"
proof -
  define db' where
    "db' = db\<lparr>activity_participants :=
                 remove1 (activity_id a, E) (activity_participants db)\<rparr>"
  have run: "unregister_from_activity db A E =
               (Inr \<lparr>message = ''Unregistered '' @ E @ '' from '' @ A\<rparr>, db')"
    unfolding db'_def using assms(3,4,5) by (rule unregister_ok)
  have acts: "activities db' = activities db"
    and parts: "participants db' = participants db"
    and assoc: "activity_participants db' =
                  remove1 (activity_id a, E) (activity_participants db)"
    by (simp_all add: db'_def)
  have gone: "(activity_id a, E) \<notin> set (activity_participants db')"
    using assms(2) assoc by simp
  have found: "find_activity_by_name db' A = Some a"
    using assms(3) find_activity_cong [OF acts] by simp
  have "distinct (map name (activities db'))"
    using assms(1) acts by simp
  with found have get: "get_activities db' A = Some (details_of db' a)"
    by (simp add: get_activities_find)
  have "E \<notin> set (d_participants (details_of db' a))"
    using gone by (auto simp: details_of_def set_participants_of)
  with run acts parts assoc gone found get assms(4) show ?thesis
    by auto
qed

theorem unregister_removes_only_association_witness:
  "fst (unregister_from_activity seeded ''Chess Club'' ''michael@mergington.edu'') =
     Inr \<lparr>message = ''Unregistered michael@mergington.edu from Chess Club''\<rparr>
   \<and> (\<exists>db'. snd (unregister_from_activity seeded ''Chess Club'' ''michael@mergington.edu'') = db'
          \<and> (1, ''michael@mergington.edu'') \<notin> set (activity_participants db')
          \<and> (\<exists>d. get_activities db' ''Chess Club'' = Some d
                 \<and> ''michael@mergington.edu'' \<notin> set (d_participants d))
          \<and> \<lparr>email = ''michael@mergington.edu''\<rparr> \<in> set (participants db')
          \<and> activities db' = activities seeded)"
proof -
  have h1: "distinct (map name (activities seeded))"
    and h2: "distinct (activity_participants seeded)"
    and h4: "\<lparr>email = ''michael@mergington.edu''\<rparr> \<in> set (participants seeded)"
    by (simp_all add: seeded_eq)
  have h5: "(activity_id \<lparr>activity_id = 1, name = ''Chess Club'',
           description = ''Learn strategies and compete in chess tournaments'',
           schedule = ''Fridays, 3:30 PM - 5:00 PM'', max_participants = 12\<rparr>,
           ''michael@mergington.edu'') \<in> set (activity_participants seeded)"
    by (simp add: seeded_eq)
  from unregister_removes_only_association [OF h1 h2 seeded_chess h4 h5] show ?thesis
    by auto
qed

subsection \<open>C6: signing up again after unregistering\<close>

text \<open>
  Claim C6. When the activity \<open>A\<close> exists and \<open>E\<close> is not associated to it, the
  three requests signup, unregister, signup for \<open>(A, E)\<close> succeed one after the
  other, and after them \<open>E\<close> is associated to \<open>A\<close> again.
\<close>

theorem signup_unregister_signup:
  assumes "find_activity_by_name db A = Some a"
    and "(activity_id a, E) \<notin> set (activity_participants db)"
  shows "\<exists>m1 db1 m2 db2 m3 db3.
           signup_for_activity db A E = (Inr m1, db1)
         \<and> unregister_from_activity db1 A E = (Inr m2, db2)
         \<and> signup_for_activity db2 A E = (Inr m3, db3)
         \<and> (activity_id a, E) \<in> set (activity_participants db3)
         \<and> \<lparr>email = E\<rparr> \<in> set (participants_of db3 a)"
proof -
  define ps where
    "ps = (if \<lparr>email = E\<rparr> \<in> set (participants db) then participants db
           else participants db @ [\<lparr>email = E\<rparr>])"
  define db1 where
    "db1 = db\<lparr>participants := ps,
              activity_participants := activity_participants db @ [(activity_id a, E)]\<rparr>"
  define db2 where "db2 = db\<lparr>participants := ps\<rparr>"
  have in_ps: "\<lparr>email = E\<rparr> \<in> set ps"
    by (simp add: ps_def)
  have s1: "signup_for_activity db A E =
              (Inr \<lparr>message = ''Signed up '' @ E @ '' for '' @ A\<rparr>, db1)"
    unfolding db1_def ps_def using assms by (intro signup_ok) simp_all
  have "activities db1 = activities db"
    by (simp add: db1_def)
  then have f1: "find_activity_by_name db1 A = Some a"
    using assms(1) find_activity_cong [of db1 db A] by simp
  have p1: "\<lparr>email = E\<rparr> \<in> set (participants db1)"
    using in_ps by (simp add: db1_def)
  have r1: "(activity_id a, E) \<in> set (activity_participants db1)"
    by (simp add: db1_def)
  have "remove1 (activity_id a, E) (activity_participants db1) = activity_participants db"
    using assms(2) by (simp add: db1_def remove1_append)
  then have "db1\<lparr>activity_participants :=
                   remove1 (activity_id a, E) (activity_participants db1)\<rparr> = db2"
    by (simp add: db1_def db2_def)
  with unregister_ok [OF f1 p1 r1]
  have u2: "unregister_from_activity db1 A E =
              (Inr \<lparr>message = ''Unregistered '' @ E @ '' from '' @ A\<rparr>, db2)"
    by simp
  have "activities db2 = activities db"
    by (simp add: db2_def)
  then have f2: "find_activity_by_name db2 A = Some a"
    using assms(1) find_activity_cong [of db2 db A] by simp
  have "(activity_id a, E) \<notin> set (activity_participants db2)"
    using assms(2) by (simp add: db2_def)
  then have "\<lparr>email = E\<rparr> \<notin> set (participants db2)
               \<or> (activity_id a, E) \<notin> set (activity_participants db2)"
    by simp
  from signup_ok [OF f2 this] in_ps
  have s3: "signup_for_activity db2 A E =
              (Inr \<lparr>message = ''Signed up '' @ E @ '' for '' @ A\<rparr>, db1)"
    by (simp add: db1_def db2_def)
  have "\<lparr>email = E\<rparr> \<in> set (participants_of db1 a)"
    using p1 r1 by (simp add: set_participants_of)
  with s1 u2 s3 r1 show ?thesis
    by blast
qed

theorem signup_unregister_signup_witness:
  "\<exists>m1 db1 m2 db2 m3 db3.
     signup_for_activity seeded ''Chess Club'' ''new@mergington.edu'' = (Inr m1, db1)
   \<and> unregister_from_activity db1 ''Chess Club'' ''new@mergington.edu'' = (Inr m2, db2)
   \<and> signup_for_activity db2 ''Chess Club'' ''new@mergington.edu'' = (Inr m3, db3)
   \<and> (1, ''new@mergington.edu'') \<in> set (activity_participants db3)"
proof -
  have h: "(activity_id \<lparr>activity_id = 1, name = ''Chess Club'',
           description = ''Learn strategies and compete in chess tournaments'',
           schedule = ''Fridays, 3:30 PM - 5:00 PM'', max_participants = 12\<rparr>,
           ''new@mergington.edu'') \<notin> set (activity_participants seeded)"
    by (simp add: seeded_eq)
  from signup_unregister_signup [OF seeded_chess h] show ?thesis
    by simp blast
qed

subsection \<open>C7: signup does not look at the capacity\<close>

text \<open>
  Claim C7. Signup never compares the number of participants with
  \<open>max_participants\<close>: when the activity \<open>A\<close> exists and \<open>E\<close> is not associated to
  it, the signup request succeeds and the participant list of \<open>A\<close> grows, whatever
  the capacity of \<open>A\<close> is, also when the list is already as long as the capacity or
  longer.
\<close>

theorem signup_ignores_capacity:
  assumes "find_activity_by_name db A = Some a"
    and "(activity_id a, E) \<notin> set (activity_participants db)"
  shows "\<exists>m db'. signup_for_activity db A E = (Inr m, db')
           \<and> length (participants_of db a) < length (participants_of db' a)
           \<and> (max_participants a \<le> int (length (participants_of db a))
                \<longrightarrow> max_participants a < int (length (participants_of db' a)))"
proof -
  define ps where
    "ps = (if \<lparr>email = E\<rparr> \<in> set (participants db) then participants db
           else participants db @ [\<lparr>email = E\<rparr>])"
  define db0 where "db0 = db\<lparr>participants := ps\<rparr>"
  define db' where
    "db' = db\<lparr>participants := ps,
              activity_participants := activity_participants db @ [(activity_id a, E)]\<rparr>"
  have run: "signup_for_activity db A E =
               (Inr \<lparr>message = ''Signed up '' @ E @ '' for '' @ A\<rparr>, db')"
    unfolding db'_def ps_def using assms by (intro signup_ok) simp_all
  have same: "participants_of db0 a = participants_of db a"
  proof (cases "\<lparr>email = E\<rparr> \<in> set (participants db)")
    case True
    then show ?thesis by (simp add: db0_def ps_def)
  next
    case False
    have "\<forall>(i, e) \<in> set (activity_participants db). i = activity_id a \<longrightarrow> e \<noteq> E"
      using assms(2) by auto
    from participants_of_new_participant [OF this] False show ?thesis
      by (simp add: db0_def ps_def)
  qed
  have "db' = db0\<lparr>activity_participants := activity_participants db0 @ [(activity_id a, E)]\<rparr>"
    by (simp add: db'_def db0_def)
  then have "participants_of db' a =
               participants_of db0 a @ filter (\<lambda>p. email p = E) (participants db0)"
    by (simp add: participants_of_snoc)
  moreover have "\<lparr>email = E\<rparr> \<in> set (filter (\<lambda>p. email p = E) (participants db0))"
    by (simp add: db0_def ps_def)
  then have "0 < length (filter (\<lambda>p. email p = E) (participants db0))"
    by (rule length_pos_if_in_set)
  ultimately have "length (participants_of db a) < length (participants_of db' a)"
    using same by simp
  with run show ?thesis
    by (intro exI [of _ db'] exI [of _ "\<lparr>message = ''Signed up '' @ E @ '' for '' @ A\<rparr>"]) simp
qed

theorem signup_ignores_capacity_witness:
  "max_participants \<lparr>activity_id = 1, name = ''Chess Club'', description = ''Chess'',
                     schedule = ''Fridays'', max_participants = 1\<rparr>
     < int (length (participants_of full_store
              \<lparr>activity_id = 1, name = ''Chess Club'', description = ''Chess'',
               schedule = ''Fridays'', max_participants = 1\<rparr>))
   \<and> (\<exists>m db'. signup_for_activity full_store ''Chess Club'' ''c@x'' = (Inr m, db')
         \<and> max_participants \<lparr>activity_id = 1, name = ''Chess Club'', description = ''Chess'',
                     schedule = ''Fridays'', max_participants = 1\<rparr>
            < int (length (participants_of db'
                 \<lparr>activity_id = 1, name = ''Chess Club'', description = ''Chess'',
                  schedule = ''Fridays'', max_participants = 1\<rparr>)))"
proof -
  let ?a = "\<lparr>activity_id = 1, name = ''Chess Club'', description = ''Chess'',
             schedule = ''Fridays'', max_participants = 1\<rparr>"
  have h1: "find_activity_by_name full_store ''Chess Club'' = Some ?a"
    by (simp add: full_store_def find_activity_by_name_def)
  have h2: "(activity_id ?a, ''c@x'') \<notin> set (activity_participants full_store)"
    by (simp add: full_store_def)
  have over: "max_participants ?a < int (length (participants_of full_store ?a))"
    by (simp add: full_store_def participants_of_def)
  from signup_ignores_capacity [OF h1 h2] over show ?thesis
    by auto
qed

subsection \<open>C8: no association row occurs twice\<close>

lemma consistent_signup:
  assumes "consistent db"
  shows "consistent (snd (signup_for_activity db A E))"
proof (cases "find_activity_by_name db A")
  case None
  with assms show ?thesis by (simp add: signup_not_found)
next
  case (Some a)
  show ?thesis
  proof (cases "\<lparr>email = E\<rparr> \<in> set (participants db)
                  \<and> (activity_id a, E) \<in> set (activity_participants db)")
    case True
    with Some assms show ?thesis by (simp add: signup_already)
  next
    case False
    then have cond: "\<lparr>email = E\<rparr> \<notin> set (participants db)
                       \<or> (activity_id a, E) \<notin> set (activity_participants db)"
      by simp
    have fresh: "(activity_id a, E) \<notin> set (activity_participants db)"
      using cond assms by (auto simp: consistent_def)
    from assms fresh show ?thesis
      by (auto simp: signup_ok [OF Some cond] consistent_def)
  qed
qed

lemma consistent_unregister:
  assumes "consistent db"
  shows "consistent (snd (unregister_from_activity db A E))"
proof (cases "find_activity_by_name db A")
  case None
  with assms show ?thesis by (simp add: unregister_not_found)
next
  case (Some a)
  show ?thesis
  proof (cases "\<lparr>email = E\<rparr> \<in> set (participants db)
                  \<and> (activity_id a, E) \<in> set (activity_participants db)")
    case True
    then have "snd (unregister_from_activity db A E) =
                 db\<lparr>activity_participants :=
                      remove1 (activity_id a, E) (activity_participants db)\<rparr>"
      using Some by (simp add: unregister_ok)
    with assms show ?thesis
      by (auto simp: consistent_def dest: notin_set_remove1)
  next
    case False
    then have "\<lparr>email = E\<rparr> \<notin> set (participants db)
                 \<or> (activity_id a, E) \<notin> set (activity_participants db)"
      by simp
    with Some assms show ?thesis by (simp add: unregister_not_signed_up)
  qed
qed

lemma consistent_run: "consistent db \<Longrightarrow> consistent (run db rs)"
proof (induction rs arbitrary: db)
  case Nil
  then show ?case by (simp add: run_def)
next
  case (Cons r rs)
  have "consistent (snd (handle db r))"
    using Cons.prems by (cases r) (simp_all add: consistent_signup consistent_unregister)
  from Cons.IH [OF this] show ?case by (simp add: run_def)
qed

lemma consistent_seeded: "consistent seeded"
  by (simp add: consistent_def seeded_eq)

lemma distinct_count_le_1: "distinct xs \<Longrightarrow> count_list xs x \<le> 1"
  by (induction xs) (auto simp: count_list_0_iff)

text \<open>
  Claim C8. In every database reached from the seeded one by a sequence of signup
  and unregister requests, each pair of an activity and a participant occurs at
  most once in the association table.
\<close>

theorem association_unique_reachable:
  "count_list (activity_participants (run seeded rs)) (i, e) \<le> 1
   \<and> distinct (activity_participants (run seeded rs))"
proof -
  have "consistent (run seeded rs)"
    using consistent_seeded by (rule consistent_run)
  then have "distinct (activity_participants (run seeded rs))"
    by (simp add: consistent_def)
  then show ?thesis
    using distinct_count_le_1 [of "activity_participants (run seeded rs)" "(i, e)"] by simp
qed

theorem association_unique_reachable_witness:
  "count_list
     (activity_participants
        (run seeded [Signup ''Chess Club'' ''new@mergington.edu'',
                     Signup ''Chess Club'' ''new@mergington.edu'',
                     Unregister ''Chess Club'' ''michael@mergington.edu'',
                     Signup ''Chess Club'' ''michael@mergington.edu'']))
     (1, ''new@mergington.edu'') \<le> 1"
  using association_unique_reachable
          [of "[Signup ''Chess Club'' ''new@mergington.edu'',
                Signup ''Chess Club'' ''new@mergington.edu'',
                Unregister ''Chess Club'' ''michael@mergington.edu'',
                Signup ''Chess Club'' ''michael@mergington.edu'']"
              1 "''new@mergington.edu''"]
  by simp

subsection \<open>C9: a failing request changes nothing\<close>

text \<open>
  Claim C9. A signup or unregister request that fails, which it does with status
  404 or 400 only, leaves the database exactly as it was: no row of the three
  tables is added, changed or removed.
\<close>

theorem failed_request_no_effect:
  "(fst (signup_for_activity db A E) = Inl err
      \<longrightarrow> snd (signup_for_activity db A E) = db \<and> status_code err \<in> {404, 400})
   \<and> (fst (unregister_from_activity db A E) = Inl err
      \<longrightarrow> snd (unregister_from_activity db A E) = db \<and> status_code err \<in> {404, 400})"
  by (auto simp: signup_for_activity_def unregister_from_activity_def
           split: option.splits if_splits)

theorem failed_request_no_effect_witness:
  "fst (signup_for_activity seeded ''Chess Club'' ''michael@mergington.edu'') =
     Inl (HTTPException 400 ''Student is already signed up'')
   \<and> snd (signup_for_activity seeded ''Chess Club'' ''michael@mergington.edu'') = seeded
   \<and> fst (unregister_from_activity seeded ''Debate Team'' ''michael@mergington.edu'') =
     Inl (HTTPException 404 ''Activity not found'')
   \<and> snd (unregister_from_activity seeded ''Debate Team'' ''michael@mergington.edu'') = seeded"
proof -
  have michael: "\<lparr>email = ''michael@mergington.edu''\<rparr> \<in> set (participants seeded)"
    "(activity_id \<lparr>activity_id = 1, name = ''Chess Club'',
           description = ''Learn strategies and compete in chess tournaments'',
           schedule = ''Fridays, 3:30 PM - 5:00 PM'', max_participants = 12\<rparr>,
      ''michael@mergington.edu'') \<in> set (activity_participants seeded)"
    by (simp_all add: seeded_eq)
  have s: "fst (signup_for_activity seeded ''Chess Club'' ''michael@mergington.edu'') =
             Inl (HTTPException 400 ''Student is already signed up'')"
    using signup_already [OF seeded_chess michael] by simp
  have "find_activity_by_name seeded ''Debate Team'' = None"
    by (simp add: seeded_eq find_activity_by_name_def)
  then have u: "fst (unregister_from_activity seeded ''Debate Team'' ''michael@mergington.edu'') =
             Inl (HTTPException 404 ''Activity not found'')"
    by (simp add: unregister_not_found)
  from failed_request_no_effect
         [of seeded "''Chess Club''" "''michael@mergington.edu''"
             "HTTPException 400 ''Student is already signed up''"] s
  have "snd (signup_for_activity seeded ''Chess Club'' ''michael@mergington.edu'') = seeded"
    by simp
  moreover
  from failed_request_no_effect
         [of seeded "''Debate Team''" "''michael@mergington.edu''"
             "HTTPException 404 ''Activity not found''"] u
  have "snd (unregister_from_activity seeded ''Debate Team'' ''michael@mergington.edu'') = seeded"
    by simp
  ultimately show ?thesis using s u by simp
qed

subsection \<open>C10: what a successful request leaves alone\<close>

lemma signup_frame:
  assumes found: "find_activity_by_name db A = Some a"
    and fk: "\<forall>(i, e) \<in> set (activity_participants db). \<lparr>email = e\<rparr> \<in> set (participants db)"
    and ok: "signup_for_activity db A E = (Inr m, db')"
  shows "activities db' = activities db"
    and "participants db' = participants db
         \<or> participants db' = participants db @ [\<lparr>email = E\<rparr>]"
    and "activity_id b \<noteq> activity_id a \<Longrightarrow> participants_of db' b = participants_of db b"
    and "email p \<noteq> E \<Longrightarrow> activities_of db' p = activities_of db p"
    and "x \<noteq> (activity_id a, E) \<Longrightarrow>
         count_list (activity_participants db') x = count_list (activity_participants db) x"
proof -
  define ps where
    "ps = (if \<lparr>email = E\<rparr> \<in> set (participants db) then participants db
           else participants db @ [\<lparr>email = E\<rparr>])"
  define db0 where "db0 = db\<lparr>participants := ps\<rparr>"
  have cond: "\<lparr>email = E\<rparr> \<notin> set (participants db)
                \<or> (activity_id a, E) \<notin> set (activity_participants db)"
  proof (rule ccontr)
    assume "\<not> ?thesis"
    then have "\<lparr>email = E\<rparr> \<in> set (participants db)"
      and "(activity_id a, E) \<in> set (activity_participants db)"
      by simp_all
    from signup_already [OF found this] ok show False by simp
  qed
  from signup_ok [OF found cond] ok
  have db': "db' = db0\<lparr>activity_participants :=
                        activity_participants db0 @ [(activity_id a, E)]\<rparr>"
    by (simp add: db0_def ps_def)
  show "activities db' = activities db"
    by (simp add: db' db0_def)
  show "participants db' = participants db
          \<or> participants db' = participants db @ [\<lparr>email = E\<rparr>]"
    by (simp add: db' db0_def ps_def)
  show "participants_of db' b = participants_of db b" if "activity_id b \<noteq> activity_id a"
  proof -
    have "participants_of db0 b = participants_of db b"
    proof (cases "\<lparr>email = E\<rparr> \<in> set (participants db)")
      case True
      then show ?thesis by (simp add: db0_def ps_def)
    next
      case False
      with fk have "\<forall>(i, e) \<in> set (activity_participants db). i = activity_id b \<longrightarrow> e \<noteq> E"
        by auto
      from participants_of_new_participant [OF this] False show ?thesis
        by (simp add: db0_def ps_def)
    qed
    with that show ?thesis
      by (simp add: db' participants_of_snoc)
  qed
  show "activities_of db' p = activities_of db p" if "email p \<noteq> E"
  proof -
    from that have "activities_of db' p = activities_of db0 p"
      by (auto simp: db' activities_of_snoc)
    also have "\<dots> = activities_of db p"
      by (simp add: db0_def activities_of_participants_upd)
    finally show ?thesis .
  qed
  show "count_list (activity_participants db') x = count_list (activity_participants db) x"
    if "x \<noteq> (activity_id a, E)"
    using that by (simp add: db' db0_def)
qed

lemma unregister_frame:
  assumes found: "find_activity_by_name db A = Some a"
    and ok: "unregister_from_activity db A E = (Inr m, db')"
  shows "activities db' = activities db"
    and "participants db' = participants db"
    and "activity_id b \<noteq> activity_id a \<Longrightarrow> participants_of db' b = participants_of db b"
    and "email p \<noteq> E \<Longrightarrow> activities_of db' p = activities_of db p"
    and "x \<noteq> (activity_id a, E) \<Longrightarrow>
         count_list (activity_participants db') x = count_list (activity_participants db) x"
proof -
  have present: "\<lparr>email = E\<rparr> \<in> set (participants db)
                   \<and> (activity_id a, E) \<in> set (activity_participants db)"
  proof (rule ccontr)
    assume "\<not> ?thesis"
    then have "\<lparr>email = E\<rparr> \<notin> set (participants db)
                 \<or> (activity_id a, E) \<notin> set (activity_participants db)"
      by simp
    from unregister_not_signed_up [OF found this] ok show False by simp
  qed
  with found ok have db': "db' = db\<lparr>activity_participants :=
                                        remove1 (activity_id a, E) (activity_participants db)\<rparr>"
    by (simp add: unregister_ok)
  show "activities db' = activities db" and "participants db' = participants db"
    by (simp_all add: db')
  show "participants_of db' b = participants_of db b" if "activity_id b \<noteq> activity_id a"
    using that by (simp add: db' participants_of_remove1)
  show "activities_of db' p = activities_of db p" if "email p \<noteq> E"
    using that by (simp add: db' activities_of_remove1)
  show "count_list (activity_participants db') x = count_list (activity_participants db) x"
    if "x \<noteq> (activity_id a, E)"
    using that by (simp add: db' count_list_remove1_other)
qed

text \<open>
  Claim C10. A successful signup or unregister for \<open>(A, E)\<close> changes only the
  association row \<open>(A, E)\<close> and, for a signup, may add the participant row for
  \<open>E\<close>. The activities table is the same before and after, so \<open>A\<close> keeps its name,
  description, schedule and max_participants; every other activity has the same
  participants, every other participant the same activities, and every other
  association row occurs as often as before. Every association row names an
  existing participant, as its foreign key declares.
\<close>

theorem successful_request_frame:
  assumes "find_activity_by_name db A = Some a"
    and "\<forall>(i, e) \<in> set (activity_participants db). \<lparr>email = e\<rparr> \<in> set (participants db)"
    and "signup_for_activity db A E = (Inr m, db')
         \<or> unregister_from_activity db A E = (Inr m, db')"
  shows "activities db' = activities db
       \<and> find_activity_by_name db' A = Some a
       \<and> (participants db' = participants db
          \<or> participants db' = participants db @ [\<lparr>email = E\<rparr>])
       \<and> (\<forall>b. activity_id b \<noteq> activity_id a
               \<longrightarrow> participants_of db' b = participants_of db b)
       \<and> (\<forall>p. email p \<noteq> E \<longrightarrow> activities_of db' p = activities_of db p)
       \<and> (\<forall>x. x \<noteq> (activity_id a, E)
               \<longrightarrow> count_list (activity_participants db') x
                   = count_list (activity_participants db) x)"
  using assms(3)
proof
  assume ok: "signup_for_activity db A E = (Inr m, db')"
  note fr = signup_frame [OF assms(1,2) ok]
  from fr(1) assms(1) have "find_activity_by_name db' A = Some a"
    using find_activity_cong [of db' db A] by simp
  with fr show ?thesis by blast
next
  assume ok: "unregister_from_activity db A E = (Inr m, db')"
  note fr = unregister_frame [OF assms(1) ok]
  from fr(1) assms(1) have "find_activity_by_name db' A = Some a"
    using find_activity_cong [of db' db A] by simp
  with fr show ?thesis by blast
qed

theorem successful_request_frame_witness:
  "(\<exists>m db'. signup_for_activity seeded ''Chess Club'' ''new@mergington.edu'' = (Inr m, db')
          \<and> activities db' = activities seeded
          \<and> participants_of db'
                \<lparr>activity_id = 2, name = ''Programming Class'',
                 description = ''Learn programming fundamentals and build software projects'',
                 schedule = ''Tuesdays and Thursdays, 3:30 PM - 4:30 PM'',
                 max_participants = 20\<rparr>
              = participants_of seeded
                \<lparr>activity_id = 2, name = ''Programming Class'',
                 description = ''Learn programming fundamentals and build software projects'',
                 schedule = ''Tuesdays and Thursdays, 3:30 PM - 4:30 PM'',
                 max_participants = 20\<rparr>
          \<and> activities_of db' \<lparr>email = ''michael@mergington.edu''\<rparr>
              = activities_of seeded \<lparr>email = ''michael@mergington.edu''\<rparr>)
   \<and> (\<exists>m db'. unregister_from_activity seeded ''Chess Club'' ''michael@mergington.edu''
            = (Inr m, db')
          \<and> activities db' = activities seeded
          \<and> participants db' = participants seeded
          \<and> activities_of db' \<lparr>email = ''daniel@mergington.edu''\<rparr>
              = activities_of seeded \<lparr>email = ''daniel@mergington.edu''\<rparr>)"
proof -
  let ?chess = "\<lparr>activity_id = 1, name = ''Chess Club'',
                 description = ''Learn strategies and compete in chess tournaments'',
                 schedule = ''Fridays, 3:30 PM - 5:00 PM'', max_participants = 12\<rparr>"
  let ?prog = "\<lparr>activity_id = 2, name = ''Programming Class'',
                description = ''Learn programming fundamentals and build software projects'',
                schedule = ''Tuesdays and Thursdays, 3:30 PM - 4:30 PM'',
                max_participants = 20\<rparr>"
  have fk: "\<forall>(i, e) \<in> set (activity_participants seeded).
              \<lparr>email = e\<rparr> \<in> set (participants seeded)"
    by (simp add: seeded_eq)
  have "\<lparr>email = ''new@mergington.edu''\<rparr> \<notin> set (participants seeded)
          \<or> (activity_id ?chess, ''new@mergington.edu'') \<notin> set (activity_participants seeded)"
    by (simp add: seeded_eq)
  from signup_ok [OF seeded_chess this] obtain m1 db1 where
    s: "signup_for_activity seeded ''Chess Club'' ''new@mergington.edu'' = (Inr m1, db1)"
    by blast
  have "\<lparr>email = ''michael@mergington.edu''\<rparr> \<in> set (participants seeded)"
    and "(activity_id ?chess, ''michael@mergington.edu'') \<in> set (activity_participants seeded)"
    by (simp_all add: seeded_eq)
  from unregister_ok [OF seeded_chess this] obtain m2 db2 where
    u: "unregister_from_activity seeded ''Chess Club'' ''michael@mergington.edu'' = (Inr m2, db2)"
    by blast
  have f1: "activities db1 = activities seeded"
    "participants_of db1 ?prog = participants_of seeded ?prog"
    "activities_of db1 \<lparr>email = ''michael@mergington.edu''\<rparr>
       = activities_of seeded \<lparr>email = ''michael@mergington.edu''\<rparr>"
    using successful_request_frame [OF seeded_chess fk disjI1 [OF s]] by simp_all
  have f2: "activities db2 = activities seeded"
    "activities_of db2 \<lparr>email = ''daniel@mergington.edu''\<rparr>
       = activities_of seeded \<lparr>email = ''daniel@mergington.edu''\<rparr>"
    using successful_request_frame [OF seeded_chess fk disjI2 [OF u]] by simp_all
  have p2: "participants db2 = participants seeded"
    using unregister_ok [OF seeded_chess
            \<open>\<lparr>email = ''michael@mergington.edu''\<rparr> \<in> set (participants seeded)\<close>
            \<open>(activity_id ?chess, ''michael@mergington.edu'')
               \<in> set (activity_participants seeded)\<close>] u
    by auto
  from s u f1 f2 p2 show ?thesis
    by blast
qed

end
